theory Spec2Isabelle
  imports Complex_Main
begin

section \<open>PerformanceCalculator: data model\<close>

text \<open>
  The embedding follows \<^verbatim>\<open>src/stock_market/performance_calculation.py\<close>.
  Python numbers (ints and floats alike) are modelled as exact reals, so \<^verbatim>\<open>/\<close> is
  real division and rounding is not represented. Every exception the interpreter can
  raise in a method body is a constructor of \<open>error\<close>, and a method returns
  \<open>error + result\<close>.
\<close>

datatype error =
    ZeroDivisionError
  | IndexError
  | KeyError
  | NameError
  | ValueError
  | AssertionError

text \<open>
  The instance: \<^verbatim>\<open>self.performance_calculations\<close> (a dict) and \<^verbatim>\<open>self.prices\<close>
  (a list).
\<close>

record calculator =
  performance_calculations :: "(string \<times> real) list"
  prices :: "real list"

text \<open>
  \<^verbatim>\<open>__init__(self, performance_calculations)\<close> assigns the two attributes from
  literals; the parameter is not read.
\<close>

definition init :: "'a \<Rightarrow> calculator" where
  "init performance_calculations_arg = \<lparr>performance_calculations = [], prices = []\<rparr>"

subsection \<open>Python slices\<close>

text \<open>
  \<^verbatim>\<open>xs[:k]\<close>: a non-negative bound keeps the first \<open>k\<close> elements, a negative bound
  drops the last \<open>-k\<close>; bounds beyond the list are clipped, never an error.
\<close>

definition slice_to :: "'a list \<Rightarrow> int \<Rightarrow> 'a list" where
  "slice_to xs k = (if 0 \<le> k then take (nat k) xs else take (length xs - nat (- k)) xs)"

text \<open>\<^verbatim>\<open>xs[k:]\<close>, with the same clipping.\<close>

definition slice_from :: "'a list \<Rightarrow> int \<Rightarrow> 'a list" where
  "slice_from xs k = (if 0 \<le> k then drop (nat k) xs else drop (length xs - nat (- k)) xs)"

section \<open>Technical indicators\<close>

subsection \<open>calculate_mas\<close>

text \<open>
  The loop \<^verbatim>\<open>for price in self.prices[:period]: exponential_ma.append(...)\<close>; the list
  being appended to is the accumulator, \<^verbatim>\<open>exponential_ma[-1]\<close> is its last element
  (the accumulator starts with one element, so it is never empty).
\<close>

fun ema_loop :: "real \<Rightarrow> real list \<Rightarrow> real list \<Rightarrow> real list" where
  "ema_loop multiplier [] exponential_ma = exponential_ma"
| "ema_loop multiplier (price # rest) exponential_ma =
     ema_loop multiplier rest
       (exponential_ma @ [(price - last exponential_ma) * multiplier + last exponential_ma])"

text \<open>
  \<^verbatim>\<open>calculate_mas(self, prices, period)\<close>. The two divisions raise on a zero divisor:
  \<^verbatim>\<open>/ period\<close> at \<open>period = 0\<close> and \<^verbatim>\<open>2 / (period + 1)\<close> at \<open>period = -1\<close>.
  The parameter \<open>prices\<close> does not occur in the body.
\<close>

definition calculate_mas :: "calculator \<Rightarrow> real list \<Rightarrow> int \<Rightarrow> error + (real \<times> real list)" where
  "calculate_mas self prices_arg period =
     (if period = 0 then Inl ZeroDivisionError
      else
        let simple_ma = sum_list (slice_to (prices self) period) / real_of_int period in
        if period + 1 = 0 then Inl ZeroDivisionError
        else
          let multiplier = 2 / real_of_int (period + 1);
              exponential_ma = [simple_ma * multiplier]
          in Inr (simple_ma, ema_loop multiplier (slice_to (prices self) period) exponential_ma))"

subsection \<open>calculate_rsi\<close>

text \<open>
  \<^verbatim>\<open>calculate_rsi(self, prices, period=14)\<close>. The comprehension indexes the held
  series \<^verbatim>\<open>self.prices\<close> at every \<open>i\<close> of \<^verbatim>\<open>range(1, len(prices))\<close>, where
  \<open>prices\<close> is the argument: an index beyond the held series raises IndexError
  (\<open>i - 1\<close> is never negative there). The averages divide by the number of deltas, and
  the relative strength by the average loss. \<open>period\<close> is not read.
\<close>

definition calculate_rsi :: "calculator \<Rightarrow> real list \<Rightarrow> int \<Rightarrow> error + real" where
  "calculate_rsi self prices_arg period =
     (if list_ex (\<lambda>i. length (prices self) \<le> i) [1..<length prices_arg] then Inl IndexError
      else
        let deltas = map (\<lambda>i. prices self ! i - prices self ! (i - 1)) [1..<length prices_arg];
            gains = map (\<lambda>delta. if delta > 0 then delta else 0) deltas;
            losses = map (\<lambda>delta. if delta < 0 then - delta else 0) deltas
        in
        if length gains = 0 then Inl ZeroDivisionError
        else
          let average_gain = sum_list gains / real (length gains) in
          if length losses = 0 then Inl ZeroDivisionError
          else
            let average_losses = sum_list losses / real (length losses) in
            if average_losses = 0 then Inl ZeroDivisionError
            else
              let rs = average_gain / average_losses in
              if 1 + rs = 0 then Inl ZeroDivisionError
              else Inr (100 - 100 / (1 + rs)))"

subsection \<open>calculate_bollinger_bands\<close>

text \<open>
  \<^verbatim>\<open>calculate_bollinger_bands(self, prices, period=20, num_std_dev=2)\<close>. The simple
  average comes from \<open>calculate_mas\<close>; the squared deviations run over
  \<^verbatim>\<open>prices[-period:]\<close> of the argument. \<^verbatim>\<open>x ** 0.5\<close> of a negative float is a
  complex number in Python 3, which the \<^verbatim>\<open>assert isinstance(std_dev, float)\<close> rejects.
\<close>

definition calculate_bollinger_bands ::
  "calculator \<Rightarrow> real list \<Rightarrow> int \<Rightarrow> real \<Rightarrow> error + (real \<times> real \<times> real)" where
  "calculate_bollinger_bands self prices_arg period num_std_dev =
     (case calculate_mas self prices_arg period of
        Inl e \<Rightarrow> Inl e
      | Inr (sma, exponential_ma) \<Rightarrow>
          if period = 0 then Inl ZeroDivisionError
          else
            let variance =
                  sum_list (map (\<lambda>price. (price - sma)\<^sup>2) (slice_from prices_arg (- period)))
                    / real_of_int period
            in
            if variance < 0 then Inl AssertionError
            else
              let std_dev = sqrt variance;
                  upper_band = sma + num_std_dev * std_dev;
                  lower_band = sma - num_std_dev * std_dev
              in Inr (upper_band, lower_band, sma))"

subsection \<open>moving_average_crossover, calculate_volatility, calculate_lookback_period\<close>

text \<open>\<^verbatim>\<open>moving_average_crossover\<close> passes the held series to \<open>calculate_mas\<close> twice.\<close>

definition moving_average_crossover ::
  "calculator \<Rightarrow> real list \<Rightarrow> int \<Rightarrow> int \<Rightarrow> error + string" where
  "moving_average_crossover self prices_arg short_period long_period =
     (case calculate_mas self (prices self) short_period of
        Inl e \<Rightarrow> Inl e
      | Inr (short_ma, short_ema) \<Rightarrow>
          (case calculate_mas self (prices self) long_period of
             Inl e \<Rightarrow> Inl e
           | Inr (long_ma, long_ema) \<Rightarrow>
               if short_ma > long_ma then Inr ''Buy''
               else if short_ma < long_ma then Inr ''Sell''
               else Inr ''Hold''))"

text \<open>
  The comprehension \<^verbatim>\<open>[prices[i] / prices[i-1] - 1 for i in range(1, len(prices))]\<close>
  walks adjacent pairs left to right and raises at the first zero divisor.
\<close>

fun returns_of :: "real list \<Rightarrow> error + real list" where
  "returns_of (a # b # rest) =
     (if a = 0 then Inl ZeroDivisionError
      else (case returns_of (b # rest) of
              Inl e \<Rightarrow> Inl e
            | Inr rs \<Rightarrow> Inr ((b / a - 1) # rs)))"
| "returns_of short = Inr []"

text \<open>
  In \<open>calculate_volatility\<close> the mean \<^verbatim>\<open>sum(returns) / len(returns)\<close> is evaluated
  once per return, so never with an empty list.
\<close>

definition calculate_volatility :: "real list \<Rightarrow> int \<Rightarrow> error + real" where
  "calculate_volatility prices_arg period =
     (case returns_of prices_arg of
        Inl e \<Rightarrow> Inl e
      | Inr returns \<Rightarrow>
          Inr (sum_list (map (\<lambda>r. (r - sum_list returns / real (length returns))\<^sup>2) returns)))"

definition calculate_lookback_period :: "real list \<Rightarrow> int \<Rightarrow> real list" where
  "calculate_lookback_period prices_arg period = slice_from prices_arg (- period)"

section \<open>Risk, position and portfolio functions\<close>

definition calculate_stop_loss :: "real \<Rightarrow> real \<Rightarrow> real" where
  "calculate_stop_loss entry_price stop_loss_percentage = (1 - stop_loss_percentage) * entry_price"

definition calculate_take_profit :: "real \<Rightarrow> real \<Rightarrow> real" where
  "calculate_take_profit entry_price take_profit_percentage =
     (1 + take_profit_percentage) * entry_price"

definition calculate_position_size :: "real \<Rightarrow> real \<Rightarrow> real \<Rightarrow> error + real" where
  "calculate_position_size account_balance risk_per_trade stop_loss_amount =
     (if stop_loss_amount = 0 then Inl ZeroDivisionError
      else Inr ((account_balance * risk_per_trade) / stop_loss_amount))"

text \<open>A dict is an association list in insertion order.\<close>

definition calculate_allocation_ratios ::
  "real \<Rightarrow> (string \<times> real) list \<Rightarrow> (string \<times> real) list" where
  "calculate_allocation_ratios total_capital allocations =
     map (\<lambda>(asset, ratio). (asset, total_capital * ratio)) allocations"

definition rebalance_portfolio ::
  "(string \<times> real) list \<Rightarrow> (string \<times> real) list \<Rightarrow> (string \<times> real) list" where
  "rebalance_portfolio portfolio target_ratios =
     (let total_value = sum_list (map snd portfolio)
      in map (\<lambda>(asset, ratio). (asset, total_value * ratio)) target_ratios)"

text \<open>
  The loop of \<open>calculate_max_drawdown\<close>, with the two loop variables as arguments. The
  division \<^verbatim>\<open>(peak - value) / peak\<close> raises when the peak is zero.
\<close>

fun drawdown_loop :: "real list \<Rightarrow> real \<Rightarrow> real \<Rightarrow> error + real" where
  "drawdown_loop [] peak max_drawdown = Inr max_drawdown"
| "drawdown_loop (v # rest) peak max_drawdown =
     (let peak' = (if v > peak then v else peak) in
      if peak' = 0 then Inl ZeroDivisionError
      else
        let drawdown = (peak' - v) / peak' in
        drawdown_loop rest peak' (if drawdown > max_drawdown then drawdown else max_drawdown))"

text \<open>\<^verbatim>\<open>portfolio_values[0]\<close> raises IndexError on the empty list.\<close>

definition calculate_max_drawdown :: "real list \<Rightarrow> error + real" where
  "calculate_max_drawdown portfolio_values =
     (case portfolio_values of
        [] \<Rightarrow> Inl IndexError
      | first # rest \<Rightarrow> drawdown_loop portfolio_values first 0)"

definition calculate_risk_reward_ratio :: "real \<Rightarrow> real \<Rightarrow> error + real" where
  "calculate_risk_reward_ratio potential_profit potential_loss =
     (if potential_profit = 0 then Inl ZeroDivisionError
      else Inr (potential_loss / potential_profit))"

section \<open>Sustainability functions\<close>

definition calculate_carbon_footprint :: "real \<Rightarrow> real \<Rightarrow> real" where
  "calculate_carbon_footprint activity_data emission_factor = activity_data * emission_factor"

subsection \<open>The part of pandas the two reports use\<close>

text \<open>
  A DataFrame is its row labels and its columns in order, each column a label and one
  value per row. A row label is a position of the default RangeIndex or a name.
\<close>

datatype row_label = RowNo nat | RowName string

record dataframe =
  row_index :: "row_label list"
  columns :: "(string \<times> real list) list"

text \<open>
  \<^verbatim>\<open>pd.DataFrame(data)\<close> for a dict of lists: the keys become the columns in
  insertion order and the rows are numbered from 0; lists of different lengths raise
  ValueError.
\<close>

definition DataFrame :: "(string \<times> real list) list \<Rightarrow> error + dataframe" where
  "DataFrame data =
     (case data of
        [] \<Rightarrow> Inr \<lparr>row_index = [], columns = []\<rparr>
      | (name, vs) # rest \<Rightarrow>
          if list_all (\<lambda>(other, ws). length ws = length vs) rest
          then Inr \<lparr>row_index = map RowNo [0..<length vs], columns = data\<rparr>
          else Inl ValueError)"

text \<open>\<^verbatim>\<open>df.sum(axis=1)\<close>: one sum per row, across all columns.\<close>

definition sum_axis1 :: "dataframe \<Rightarrow> real list" where
  "sum_axis1 df =
     map (\<lambda>r. sum_list (map (\<lambda>(name, vs). vs ! r) (columns df))) [0..<length (row_index df)]"

text \<open>\<^verbatim>\<open>df.sum()\<close>: one sum per column, labelled by the column.\<close>

definition sum_axis0 :: "dataframe \<Rightarrow> (string \<times> real) list" where
  "sum_axis0 df = map (\<lambda>(name, vs). (name, sum_list vs)) (columns df)"

text \<open>
  \<^verbatim>\<open>df[name] = values\<close>: an existing column of that label is replaced in place,
  otherwise the column is added last.
\<close>

definition setitem :: "dataframe \<Rightarrow> string \<Rightarrow> real list \<Rightarrow> dataframe" where
  "setitem df name values =
     (if name \<in> set (map fst (columns df))
      then df\<lparr>columns := map (\<lambda>(c, vs). if c = name then (c, values) else (c, vs)) (columns df)\<rparr>
      else df\<lparr>columns := columns df @ [(name, values)]\<rparr>)"

text \<open>\<^verbatim>\<open>df[name]\<close>: KeyError when no column has that label.\<close>

definition getitem :: "dataframe \<Rightarrow> string \<Rightarrow> error + real list" where
  "getitem df name =
     (case map_of (columns df) name of
        None \<Rightarrow> Inl KeyError
      | Some vs \<Rightarrow> Inr vs)"

text \<open>
  \<^verbatim>\<open>df.loc[label] = row\<close> where \<open>row\<close> is labelled by the columns of \<open>df\<close> (as
  \<^verbatim>\<open>df.sum()\<close> is): a new label appends a row, an existing label overwrites its row.
  A column the row has no value for is left as it is.
\<close>

fun position_of :: "row_label \<Rightarrow> row_label list \<Rightarrow> nat option" where
  "position_of l [] = None"
| "position_of l (x # xs) =
     (if x = l then Some 0 else map_option Suc (position_of l xs))"

definition loc_set :: "dataframe \<Rightarrow> row_label \<Rightarrow> (string \<times> real) list \<Rightarrow> dataframe" where
  "loc_set df label row =
     (case position_of label (row_index df) of
        None \<Rightarrow>
          \<lparr>row_index = row_index df @ [label],
           columns = map (\<lambda>(c, vs). (c, (case map_of row c of None \<Rightarrow> vs | Some v \<Rightarrow> vs @ [v])))
                       (columns df)\<rparr>
      | Some r \<Rightarrow>
          df\<lparr>columns :=
               map (\<lambda>(c, vs). (c, (case map_of row c of None \<Rightarrow> vs | Some v \<Rightarrow> vs[r := v])))
                 (columns df)\<rparr>)"

text \<open>
  \<^verbatim>\<open>df.at[label, name] = v\<close> for a row and a column that exist: the cell is
  overwritten; other cells are unchanged.
\<close>

definition at_set :: "dataframe \<Rightarrow> row_label \<Rightarrow> string \<Rightarrow> real \<Rightarrow> dataframe" where
  "at_set df label name v =
     (case position_of label (row_index df) of
        None \<Rightarrow> df
      | Some r \<Rightarrow>
          df\<lparr>columns := map (\<lambda>(c, vs). if c = name then (c, vs[r := v]) else (c, vs)) (columns df)\<rparr>)"

subsection \<open>calculate_energy_consumption\<close>

text \<open>
  The column is stored under \<^verbatim>\<open>'Total Energy Consumption (kWh'\<close> (line 210, no closing
  parenthesis) and read back under \<^verbatim>\<open>'Total Energy Consumption (kWh)'\<close> (line 213).
\<close>

definition calculate_energy_consumption :: "(string \<times> real list) list \<Rightarrow> error + dataframe" where
  "calculate_energy_consumption energy_data =
     (case DataFrame energy_data of
        Inl e \<Rightarrow> Inl e
      | Inr df0 \<Rightarrow>
          let df1 = setitem df0 ''Total Energy Consumption (kWh'' (sum_axis1 df0) in
          (case getitem df1 ''Total Energy Consumption (kWh)'' of
             Inl e \<Rightarrow> Inl e
           | Inr total_column \<Rightarrow>
               let annual_total_consumption = sum_list total_column;
                   df2 = loc_set df1 (RowName ''Annual Total'') (sum_axis0 df1);
                   df3 = at_set df2 (RowName ''Annual Total'') ''Total Energy Consumption (kWh)''
                           annual_total_consumption
               in Inr df3))"

subsection \<open>calculate_water_usage\<close>

text \<open>
  Line 231 reads the name \<^verbatim>\<open>df\<close>. It is not a local of \<open>calculate_water_usage\<close> (the
  local is \<^verbatim>\<open>water_usage_df\<close>), the module binds only \<^verbatim>\<open>pd\<close> and
  \<^verbatim>\<open>PerformanceCalculator\<close>, and it is no builtin: evaluating it raises NameError.
\<close>

definition global_df :: "error + dataframe" where
  "global_df = Inl NameError"

definition calculate_water_usage :: "(string \<times> real list) list \<Rightarrow> error + dataframe" where
  "calculate_water_usage water_usage_data =
     (case DataFrame water_usage_data of
        Inl e \<Rightarrow> Inl e
      | Inr w0 \<Rightarrow>
          (case global_df of
             Inl e \<Rightarrow> Inl e
           | Inr df \<Rightarrow>
               let w1 = setitem w0 ''Total Water Usage (cubic meters)'' (sum_axis1 df) in
               (case getitem w1 ''Total Water Usage (cubic meters)'' of
                  Inl e \<Rightarrow> Inl e
                | Inr total_column \<Rightarrow>
                    let annual_total_water_usage = sum_list total_column;
                        w2 = loc_set w1 (RowName ''Annual Total'') (sum_axis0 w1);
                        w3 = at_set w2 (RowName ''Annual Total'') ''Total Water Usage (cubic meters)''
                               annual_total_water_usage
                    in Inr w3)))"

section \<open>The calculator as a state machine\<close>

text \<open>
  A call of a method, with its arguments; methods that take \<open>self\<close> only formally
  are included, since the frame property is about every call on an instance.
\<close>

datatype operation =
    Calculate_mas "real list" int
  | Calculate_rsi "real list" int
  | Calculate_bollinger_bands "real list" int real
  | Calculate_stop_loss real real
  | Calculate_take_profit real real
  | Calculate_position_size real real real
  | Moving_average_crossover "real list" int int
  | Calculate_allocation_ratios real "(string \<times> real) list"
  | Rebalance_portfolio "(string \<times> real) list" "(string \<times> real) list"
  | Calculate_max_drawdown "real list"
  | Calculate_risk_reward_ratio real real
  | Calculate_volatility "real list" int
  | Calculate_lookback_period "real list" int
  | Calculate_carbon_footprint real real
  | Calculate_energy_consumption "(string \<times> real list) list"
  | Calculate_water_usage "(string \<times> real list) list"

datatype outcome =
    Mas real "real list"
  | Number real
  | Bands real real real
  | Signal string
  | Amounts "(string \<times> real) list"
  | Window "real list"
  | Table dataframe

text \<open>
  One call: the outcome (a value or the exception raised) and the instance afterwards.
  No method body contains an assignment to \<^verbatim>\<open>self.prices\<close> or
  \<^verbatim>\<open>self.performance_calculations\<close>, or a mutating call on either; the lists the
  methods build (\<^verbatim>\<open>exponential_ma\<close>, the slices, the data frames) are new objects.
\<close>

definition lift :: "('a \<Rightarrow> outcome) \<Rightarrow> error + 'a \<Rightarrow> error + outcome" where
  "lift f r = (case r of Inl e \<Rightarrow> Inl e | Inr v \<Rightarrow> Inr (f v))"

fun call :: "calculator \<Rightarrow> operation \<Rightarrow> (error + outcome) \<times> calculator" where
  "call self (Calculate_mas ps period) =
     (lift (\<lambda>(sma, ema). Mas sma ema) (calculate_mas self ps period), self)"
| "call self (Calculate_rsi ps period) = (lift Number (calculate_rsi self ps period), self)"
| "call self (Calculate_bollinger_bands ps period k) =
     (lift (\<lambda>(u, l, sma). Bands u l sma) (calculate_bollinger_bands self ps period k), self)"
| "call self (Calculate_stop_loss e p) = (Inr (Number (calculate_stop_loss e p)), self)"
| "call self (Calculate_take_profit e p) = (Inr (Number (calculate_take_profit e p)), self)"
| "call self (Calculate_position_size b r a) =
     (lift Number (calculate_position_size b r a), self)"
| "call self (Moving_average_crossover ps short long) =
     (lift Signal (moving_average_crossover self ps short long), self)"
| "call self (Calculate_allocation_ratios total_capital allocations) =
     (Inr (Amounts (calculate_allocation_ratios total_capital allocations)), self)"
| "call self (Rebalance_portfolio portfolio target_ratios) =
     (Inr (Amounts (rebalance_portfolio portfolio target_ratios)), self)"
| "call self (Calculate_max_drawdown vs) = (lift Number (calculate_max_drawdown vs), self)"
| "call self (Calculate_risk_reward_ratio profit loss) =
     (lift Number (calculate_risk_reward_ratio profit loss), self)"
| "call self (Calculate_volatility ps period) = (lift Number (calculate_volatility ps period), self)"
| "call self (Calculate_lookback_period ps period) =
     (Inr (Window (calculate_lookback_period ps period)), self)"
| "call self (Calculate_carbon_footprint a f) =
     (Inr (Number (calculate_carbon_footprint a f)), self)"
| "call self (Calculate_energy_consumption d) =
     (lift Table (calculate_energy_consumption d), self)"
| "call self (Calculate_water_usage d) = (lift Table (calculate_water_usage d), self)"

text \<open>A sequence of calls on one instance, each on the instance the previous one left.\<close>

fun run :: "calculator \<Rightarrow> operation list \<Rightarrow> calculator" where
  "run self [] = self"
| "run self (c # cs) = run (snd (call self c)) cs"

section \<open>The running peak and the drawdowns, as the specification words them\<close>

text \<open>
  The running peak starts at the first element and is updated left to right; the
  drawdown at a position is \<open>(peak - value) / peak\<close>.
\<close>

fun running_peak :: "real list \<Rightarrow> nat \<Rightarrow> real" where
  "running_peak vs 0 = vs ! 0"
| "running_peak vs (Suc i) = max (running_peak vs i) (vs ! Suc i)"

definition drawdown_at :: "real list \<Rightarrow> nat \<Rightarrow> real" where
  "drawdown_at vs i = (running_peak vs i - vs ! i) / running_peak vs i"

definition max_drawdown_spec :: "real list \<Rightarrow> real" where
  "max_drawdown_spec vs = Max (set (map (drawdown_at vs) [0..<length vs]))"

section \<open>Properties of calculate_mas\<close>

lemma ema_loop_length:
  "length (ema_loop m ps acc) = length acc + length ps"
  by (induction ps arbitrary: acc) simp_all

lemma ema_loop_prefix:
  "k < length acc \<Longrightarrow> ema_loop m ps acc ! k = acc ! k"
  by (induction ps arbitrary: acc) (simp_all add: nth_append)

lemma ema_loop_step:
  "acc \<noteq> [] \<Longrightarrow> k < length ps \<Longrightarrow>
   ema_loop m ps acc ! (length acc + k) =
     (ps ! k - ema_loop m ps acc ! (length acc + k - 1)) * m
       + ema_loop m ps acc ! (length acc + k - 1)"
proof (induction ps arbitrary: acc k)
  case Nil
  then show ?case by simp
next
  case (Cons p ps)
  let ?acc' = "acc @ [(p - last acc) * m + last acc]"
  show ?case
  proof (cases k)
    case 0
    have "ema_loop m (p # ps) acc ! length acc = ?acc' ! length acc"
      by (simp add: ema_loop_prefix)
    moreover have "ema_loop m (p # ps) acc ! (length acc - 1) = ?acc' ! (length acc - 1)"
      using Cons.prems(1) by (simp add: ema_loop_prefix)
    moreover have "?acc' ! (length acc - 1) = last acc"
      using Cons.prems(1) by (simp add: nth_append last_conv_nth)
    ultimately show ?thesis using 0 by simp
  next
    case (Suc j)
    have j: "j < length ps" using Cons.prems(2) Suc by simp
    have "ema_loop m ps ?acc' ! (length ?acc' + j) =
            (ps ! j - ema_loop m ps ?acc' ! (length ?acc' + j - 1)) * m
              + ema_loop m ps ?acc' ! (length ?acc' + j - 1)"
      by (rule Cons.IH) (simp_all add: j)
    then show ?thesis using Suc by simp
  qed
qed

text \<open>
  C1. For every held series and every period with \<open>1 \<le> period \<le> length\<close> of the held
  series, \<open>calculate_mas\<close> returns normally; the simple average is the arithmetic mean
  of the first \<open>period\<close> held prices (a leading window); the exponential series has
  \<open>period + 1\<close> elements, starts with \<open>simpleAverage * multiplier\<close> where
  \<open>multiplier = 2 / (period + 1)\<close>, and each later element is
  \<open>(price - prev) * multiplier + prev\<close> for the next of the first \<open>period\<close> held prices.
\<close>

theorem calculate_mas_leading_window:
  assumes "1 \<le> period" and "nat period \<le> length (prices self)"
  shows "\<exists>simple_ma exponential_ma.
           calculate_mas self prices_arg period = Inr (simple_ma, exponential_ma) \<and>
           simple_ma = sum_list (take (nat period) (prices self)) / real_of_int period \<and>
           length exponential_ma = nat period + 1 \<and>
           exponential_ma ! 0 = simple_ma * (2 / real_of_int (period + 1)) \<and>
           (\<forall>k < nat period.
              exponential_ma ! Suc k =
                (prices self ! k - exponential_ma ! k) * (2 / real_of_int (period + 1))
                  + exponential_ma ! k)"
proof -
  let ?w = "take (nat period) (prices self)"
  let ?m = "2 / real_of_int (period + 1)"
  let ?s = "sum_list ?w / real_of_int period"
  let ?e = "ema_loop ?m ?w [?s * ?m]"
  have w: "slice_to (prices self) period = ?w"
    using assms(1) by (simp add: slice_to_def)
  have lw: "length ?w = nat period"
    using assms(2) by (simp add: min_def)
  have res: "calculate_mas self prices_arg period = Inr (?s, ?e)"
    using assms(1) by (simp add: calculate_mas_def w Let_def)
  have len: "length ?e = nat period + 1"
    by (simp only: ema_loop_length lw) simp
  have first: "?e ! 0 = ?s * ?m"
    by (simp add: ema_loop_prefix)
  have step: "?e ! Suc k = (prices self ! k - ?e ! k) * ?m + ?e ! k" if "k < nat period" for k
  proof -
    have "?e ! (length [?s * ?m] + k) =
            (?w ! k - ?e ! (length [?s * ?m] + k - 1)) * ?m + ?e ! (length [?s * ?m] + k - 1)"
      by (rule ema_loop_step) (simp_all only: lw that, simp)
    moreover have "?w ! k = prices self ! k"
      using that by simp
    ultimately show ?thesis by simp
  qed
  from res len first step show ?thesis by blast
qed

theorem calculate_mas_leading_window_witness:
  "calculate_mas \<lparr>performance_calculations = [], prices = [2, 4, 9]\<rparr> [] 2
     = Inr (3, [2, 2, 10 / 3])"
proof -
  let ?self = "\<lparr>performance_calculations = [], prices = [2, 4, 9 :: real]\<rparr>"
  have h1: "(1::int) \<le> 2" by simp
  have h2: "nat 2 \<le> length (prices ?self)" by simp
  from calculate_mas_leading_window [OF h1 h2, of "[]"]
  obtain s e where "calculate_mas ?self [] 2 = Inr (s, e)" by blast
  then show ?thesis
    by (simp add: calculate_mas_def slice_to_def Let_def numeral_2_eq_2)
qed

text \<open>
  C2. The result of \<open>calculate_mas\<close> does not depend on its \<open>prices\<close> argument: with
  the same instance and period, any two argument lists give the same result (value or
  error).
\<close>

theorem calculate_mas_ignores_argument:
  "calculate_mas self xs period = calculate_mas self ys period"
  by (simp add: calculate_mas_def)

text \<open>
  C9. A freshly constructed calculator ignores its constructor argument and holds an
  empty price series; on it, for every argument list and every period \<open>\<ge> 1\<close>,
  \<open>calculate_mas\<close> returns the simple average \<open>0\<close> and the exponential series \<open>[0]\<close>
  without error.
\<close>

theorem fresh_calculate_mas:
  "init a = init b \<and> prices (init a) = [] \<and>
   (1 \<le> period \<longrightarrow> calculate_mas (init a) xs period = Inr (0, [0]))"
  by (simp add: init_def calculate_mas_def slice_to_def)

theorem fresh_calculate_mas_witness:
  "(1::int) \<le> 3 \<and> calculate_mas (init ()) [5, 6, 7] 3 = Inr (0, [0])"
  using fresh_calculate_mas [of "()" "()" 3 "[5, 6, 7]"] by simp

section \<open>Properties of calculate_max_drawdown\<close>

lemma running_peak_pos:
  "list_all (\<lambda>v. 0 < v) vs \<Longrightarrow> i < length vs \<Longrightarrow> 0 < running_peak vs i"
proof (induction i)
  case 0
  then show ?case by (simp add: list_all_length)
next
  case (Suc i)
  then show ?case by (simp add: list_all_length max_def)
qed

lemma drawdown_at_0: "drawdown_at vs 0 = 0"
  by (simp add: drawdown_at_def)

lemma max_drawdown_spec_prefix_Suc:
  "Max (set (map (drawdown_at vs) [0..<Suc (Suc j)])) =
     max (Max (set (map (drawdown_at vs) [0..<Suc j]))) (drawdown_at vs (Suc j))"
proof -
  have "set (map (drawdown_at vs) [0..<Suc (Suc j)]) =
          insert (drawdown_at vs (Suc j)) (set (map (drawdown_at vs) [0..<Suc j]))"
    by auto
  moreover have "finite (set (map (drawdown_at vs) [0..<Suc j]))" by simp
  moreover have "set (map (drawdown_at vs) [0..<Suc j]) \<noteq> {}" by simp
  ultimately show ?thesis by (simp add: max.commute del: set_map set_upt upt_Suc)
qed

lemma drawdown_loop_invariant:
  assumes "list_all (\<lambda>v. 0 < v) vs" and "Suc j \<le> length vs"
  shows "drawdown_loop (drop (Suc j) vs) (running_peak vs j)
           (Max (set (map (drawdown_at vs) [0..<Suc j])))
         = Inr (max_drawdown_spec vs)"
  using assms(2)
proof (induction "length vs - Suc j" arbitrary: j)
  case 0
  then have "Suc j = length vs" by simp
  then show ?case by (simp add: max_drawdown_spec_def del: upt_Suc)
next
  case (Suc n)
  then have lt: "Suc j < length vs" by simp
  let ?v = "vs ! Suc j"
  have dr: "drop (Suc j) vs = ?v # drop (Suc (Suc j)) vs"
    using lt by (simp add: Cons_nth_drop_Suc)
  have peak: "(if ?v > running_peak vs j then ?v else running_peak vs j) = running_peak vs (Suc j)"
    by (simp add: max_def)
  have pos: "running_peak vs (Suc j) \<noteq> 0"
    using running_peak_pos [OF assms(1) lt] by simp
  have dd: "(running_peak vs (Suc j) - ?v) / running_peak vs (Suc j) = drawdown_at vs (Suc j)"
    by (simp add: drawdown_at_def)
  let ?md = "Max (set (map (drawdown_at vs) [0..<Suc j]))"
  have md: "(if drawdown_at vs (Suc j) > ?md then drawdown_at vs (Suc j) else ?md) =
            Max (set (map (drawdown_at vs) [0..<Suc (Suc j)]))"
  proof -
    have "(if b > a then b else a) = max a b" for a b :: real
      by (simp add: max_def)
    then show ?thesis by (simp only: max_drawdown_spec_prefix_Suc)
  qed
  have "drawdown_loop (drop (Suc j) vs) (running_peak vs j) ?md =
        drawdown_loop (drop (Suc (Suc j)) vs) (running_peak vs (Suc j))
          (Max (set (map (drawdown_at vs) [0..<Suc (Suc j)])))"
    unfolding dr drawdown_loop.simps peak Let_def dd md using pos by simp
  also have "\<dots> = Inr (max_drawdown_spec vs)"
    using Suc.hyps(2) lt by (intro Suc.hyps(1)) simp_all
  finally show ?case .
qed

lemma calculate_max_drawdown_eq:
  assumes "vs \<noteq> []" and "list_all (\<lambda>v. 0 < v) vs"
  shows "calculate_max_drawdown vs = Inr (max_drawdown_spec vs)"
proof -
  obtain v rest where vs: "vs = v # rest" using assms(1) by (cases vs) auto
  have v: "0 < v" using assms(2) vs by simp
  have "calculate_max_drawdown vs = drawdown_loop (drop (Suc 0) vs) (running_peak vs 0)
          (Max (set (map (drawdown_at vs) [0..<Suc 0])))"
    using v by (simp add: calculate_max_drawdown_def vs drawdown_at_def)
  also have "\<dots> = Inr (max_drawdown_spec vs)"
    by (rule drawdown_loop_invariant [OF assms(2)]) (simp add: vs)
  finally show ?thesis .
qed

lemma max_drawdown_spec_nonneg:
  assumes "vs \<noteq> []"
  shows "0 \<le> max_drawdown_spec vs"
proof -
  have "drawdown_at vs 0 \<in> set (map (drawdown_at vs) [0..<length vs])"
    using assms by (auto simp: upt_conv_Cons)
  then have "drawdown_at vs 0 \<le> max_drawdown_spec vs"
    unfolding max_drawdown_spec_def by (intro Max_ge) simp_all
  then show ?thesis by (simp add: drawdown_at_0)
qed

lemma running_peak_sorted:
  "sorted vs \<Longrightarrow> i < length vs \<Longrightarrow> running_peak vs i = vs ! i"
proof (induction i)
  case 0
  then show ?case by simp
next
  case (Suc i)
  then have "vs ! i \<le> vs ! Suc i" by (simp add: sorted_iff_nth_mono)
  with Suc show ?case by (simp add: max_def)
qed

lemma max_drawdown_spec_sorted:
  assumes "vs \<noteq> []" and "sorted vs"
  shows "max_drawdown_spec vs = 0"
proof -
  have "map (drawdown_at vs) [0..<length vs] = map (\<lambda>i. 0) [0..<length vs]"
    by (rule map_cong) (simp_all add: drawdown_at_def running_peak_sorted assms(2))
  then have "map (drawdown_at vs) [0..<length vs] = replicate (length vs) 0"
    by (simp only: map_replicate_const length_upt) simp
  moreover have "length vs \<noteq> 0"
    using assms(1) by simp
  ultimately show ?thesis
    by (simp add: max_drawdown_spec_def del: set_map)
qed

text \<open>
  C4. For every non-empty sequence of positive portfolio values, \<open>calculate_max_drawdown\<close>
  returns the maximum over all positions of \<open>(runningPeak - value) / runningPeak\<close>, the
  running peak starting at the first element and updated left to right; the result is
  \<open>\<ge> 0\<close>, it is \<open>0\<close> for every non-decreasing sequence, and it is \<open>0.5\<close> for
  \<open>[100, 50]\<close>.
\<close>

theorem calculate_max_drawdown_spec:
  "(vs \<noteq> [] \<and> list_all (\<lambda>v. 0 < v) vs \<longrightarrow>
      calculate_max_drawdown vs = Inr (max_drawdown_spec vs) \<and>
      0 \<le> max_drawdown_spec vs \<and>
      (sorted vs \<longrightarrow> calculate_max_drawdown vs = Inr 0)) \<and>
   calculate_max_drawdown [100, 50] = Inr (1 / 2)"
proof -
  have "calculate_max_drawdown [100, 50] = Inr (1 / 2)"
    by (simp add: calculate_max_drawdown_def)
  then show ?thesis
    using calculate_max_drawdown_eq [of vs] max_drawdown_spec_nonneg [of vs]
      max_drawdown_spec_sorted [of vs]
    by auto
qed

theorem calculate_max_drawdown_spec_witness:
  "calculate_max_drawdown [100, 50, 75, 120, 30] = Inr (max_drawdown_spec [100, 50, 75, 120, 30]) \<and>
   max_drawdown_spec [100, 50, 75, 120, 30] = 3 / 4 \<and>
   sorted [1, 2, 2, 5 :: real] \<and> calculate_max_drawdown [1, 2, 2, 5] = Inr 0"
proof -
  have a: "max_drawdown_spec [100, 50, 75, 120, 30] = 3 / 4"
    by (simp add: max_drawdown_spec_def drawdown_at_def upt_rec numeral_nat)
  have b: "calculate_max_drawdown [100, 50, 75, 120, 30]
             = Inr (max_drawdown_spec [100, 50, 75, 120, 30])"
    using calculate_max_drawdown_spec [of "[100, 50, 75, 120, 30]"] by simp
  have h: "[1, 2, 2, 5 :: real] \<noteq> [] \<and> list_all (\<lambda>v. 0 < v) [1, 2, 2, 5 :: real]"
    by simp
  have s: "sorted [1, 2, 2, 5 :: real]"
    by simp
  have c: "calculate_max_drawdown [1, 2, 2, 5] = Inr 0"
    using calculate_max_drawdown_spec [of "[1, 2, 2, 5]"] h s by blast
  from a b c show ?thesis by simp
qed

section \<open>Properties of calculate_rsi\<close>

lemma gains_nonneg: "0 \<le> sum_list (map (\<lambda>delta. if delta > 0 then delta else (0::real)) ds)"
  by (rule sum_list_nonneg) auto

lemma losses_nonneg: "0 \<le> sum_list (map (\<lambda>delta. if delta < 0 then - delta else (0::real)) ds)"
  by (rule sum_list_nonneg) auto

lemma rsi_formula_bounds:
  fixes g l :: real
  assumes "0 \<le> g" and "0 < l"
  shows "1 + g / l \<noteq> 0" and "0 \<le> 100 - 100 / (1 + g / l)" and "100 - 100 / (1 + g / l) \<le> 100"
proof -
  have rs: "0 \<le> g / l" using assms by simp
  then have pos: "1 \<le> 1 + g / l" by simp
  then show "1 + g / l \<noteq> 0" by linarith
  from pos have "100 / (1 + g / l) \<le> 100 / 1"
    by (intro divide_left_mono) simp_all
  then show "0 \<le> 100 - 100 / (1 + g / l)" by simp
  from pos have "0 \<le> 100 / (1 + g / l)" by simp
  then show "100 - 100 / (1 + g / l) \<le> 100" by simp
qed

text \<open>
  C5. For every price series of at least two elements that the instance holds and that
  is also passed as the argument, \<open>calculate_rsi\<close> forms the deltas over the full
  series and averages gains and losses over all deltas; when the average loss is not
  zero it returns \<open>100 - 100 / (1 + avgGain / avgLoss)\<close>, which lies in \<open>[0, 100]\<close>; when
  the average loss is zero it fails with the division-by-zero error.
\<close>

theorem calculate_rsi_spec:
  assumes "prices self = ps" and "2 \<le> length ps"
  shows "let deltas = map (\<lambda>i. ps ! i - ps ! (i - 1)) [1..<length ps];
             avg_gain = sum_list (map (\<lambda>d. if d > 0 then d else 0) deltas) / real (length deltas);
             avg_loss = sum_list (map (\<lambda>d. if d < 0 then - d else 0) deltas) / real (length deltas)
         in (avg_loss \<noteq> 0 \<longrightarrow>
               calculate_rsi self ps period = Inr (100 - 100 / (1 + avg_gain / avg_loss)) \<and>
               0 \<le> 100 - 100 / (1 + avg_gain / avg_loss) \<and>
               100 - 100 / (1 + avg_gain / avg_loss) \<le> 100) \<and>
            (avg_loss = 0 \<longrightarrow> calculate_rsi self ps period = Inl ZeroDivisionError)"
proof -
  define deltas where "deltas = map (\<lambda>i. ps ! i - ps ! (i - 1)) [1..<length ps]"
  define avg_gain where
    "avg_gain = sum_list (map (\<lambda>d. if d > 0 then d else 0) deltas) / real (length deltas)"
  define avg_loss where
    "avg_loss = sum_list (map (\<lambda>d. if d < 0 then - d else 0) deltas) / real (length deltas)"
  have len: "length deltas = length ps - 1"
    by (simp add: deltas_def)
  have ne: "length deltas \<noteq> 0"
    using assms(2) len by simp
  have inrange: "list_ex (\<lambda>i. length ps \<le> i) [1..<length ps] = False"
    by (simp add: list_ex_iff)
  have ne': "(length deltas = 0) = False"
    using ne by simp
  have g: "0 \<le> avg_gain"
    unfolding avg_gain_def using gains_nonneg [of deltas] by simp
  have l: "0 \<le> avg_loss"
    unfolding avg_loss_def using losses_nonneg [of deltas] by simp
  have unfold: "calculate_rsi self ps period =
          (if avg_loss = 0 then Inl ZeroDivisionError
           else if 1 + avg_gain / avg_loss = 0 then Inl ZeroDivisionError
           else Inr (100 - 100 / (1 + avg_gain / avg_loss)))"
    by (simp only: calculate_rsi_def assms(1) Let_def deltas_def [symmetric] length_map
        avg_gain_def [symmetric] avg_loss_def [symmetric] ne' inrange if_False)
  have zero: "calculate_rsi self ps period = Inl ZeroDivisionError" if "avg_loss = 0"
    using that unfold by simp
  have nonzero: "calculate_rsi self ps period = Inr (100 - 100 / (1 + avg_gain / avg_loss)) \<and>
               0 \<le> 100 - 100 / (1 + avg_gain / avg_loss) \<and>
               100 - 100 / (1 + avg_gain / avg_loss) \<le> 100" if "avg_loss \<noteq> 0"
  proof -
    have lpos: "0 < avg_loss" using that l by simp
    show ?thesis
      using rsi_formula_bounds [OF g lpos] that unfold by simp
  qed
  from zero nonzero show ?thesis
    unfolding Let_def deltas_def [symmetric] avg_gain_def [symmetric] avg_loss_def [symmetric]
    by blast
qed

theorem calculate_rsi_spec_witness:
  "calculate_rsi \<lparr>performance_calculations = [], prices = [1, 3, 2]\<rparr> [1, 3, 2] 14 = Inr (200 / 3) \<and>
   calculate_rsi \<lparr>performance_calculations = [], prices = [1, 2]\<rparr> [1, 2] 14
     = Inl ZeroDivisionError"
proof -
  let ?a = "\<lparr>performance_calculations = [], prices = [1, 3, 2 :: real]\<rparr>"
  let ?b = "\<lparr>performance_calculations = [], prices = [1, 2 :: real]\<rparr>"
  have a: "calculate_rsi ?a [1, 3, 2] 14 = Inr (200 / 3)"
    using calculate_rsi_spec [of ?a "[1, 3, 2]" 14]
    by (simp add: Let_def upt_rec numeral_nat)
  have b: "calculate_rsi ?b [1, 2] 14 = Inl ZeroDivisionError"
    using calculate_rsi_spec [of ?b "[1, 2]" 14]
    by (simp add: Let_def upt_rec numeral_nat)
  from a b show ?thesis by simp
qed

section \<open>calculate_mas outside its documented precondition\<close>

text \<open>
  C3 (as amended). \<open>calculate_mas\<close> validates neither argument and raises no
  InvalidArgument error. At \<open>period = 0\<close> and \<open>period = -1\<close> it fails with
  ZeroDivisionError; for a period larger than the held series it returns the sum of the
  whole held series divided by \<open>period\<close>, with an exponential series one longer than the
  held series; for \<open>period < -1\<close> it returns the sum of the held series without its last
  \<open>-period\<close> elements, divided by \<open>period\<close>.
\<close>

theorem calculate_mas_outside_precondition:
  "(period = 0 \<or> period = - 1 \<longrightarrow>
      calculate_mas self prices_arg period = Inl ZeroDivisionError) \<and>
   (int (length (prices self)) < period \<longrightarrow>
      (\<exists>exponential_ma.
         calculate_mas self prices_arg period
           = Inr (sum_list (prices self) / real_of_int period, exponential_ma) \<and>
         length exponential_ma = length (prices self) + 1)) \<and>
   (period < - 1 \<longrightarrow>
      (\<exists>exponential_ma.
         calculate_mas self prices_arg period
           = Inr (sum_list (take (length (prices self) - nat (- period)) (prices self))
                    / real_of_int period, exponential_ma)))"
  by (auto simp add: calculate_mas_def slice_to_def Let_def ema_loop_length)

theorem calculate_mas_outside_precondition_witness:
  "calculate_mas \<lparr>performance_calculations = [], prices = [1, 2]\<rparr> [] 0 = Inl ZeroDivisionError \<and>
   calculate_mas \<lparr>performance_calculations = [], prices = [1, 2]\<rparr> [] (- 1) = Inl ZeroDivisionError \<and>
   (\<exists>e. calculate_mas \<lparr>performance_calculations = [], prices = [1, 2]\<rparr> [] 5 = Inr (3 / 5, e)
        \<and> length e = 3) \<and>
   (\<exists>e. calculate_mas \<lparr>performance_calculations = [], prices = [1, 2, 3, 4]\<rparr> [] (- 2)
          = Inr (- (3 / 2), e))"
proof -
  let ?a = "\<lparr>performance_calculations = [], prices = [1, 2 :: real]\<rparr>"
  let ?b = "\<lparr>performance_calculations = [], prices = [1, 2, 3, 4 :: real]\<rparr>"
  have 1: "calculate_mas ?a [] 0 = Inl ZeroDivisionError"
    using calculate_mas_outside_precondition [of 0 ?a "[]"] by simp
  have 2: "calculate_mas ?a [] (- 1) = Inl ZeroDivisionError"
    using calculate_mas_outside_precondition [of "- 1" ?a "[]"] by simp
  have 3: "\<exists>e. calculate_mas ?a [] 5 = Inr (3 / 5, e) \<and> length e = 3"
    using calculate_mas_outside_precondition [of 5 ?a "[]"] by (simp add: numeral_3_eq_3)
  have 4: "\<exists>e. calculate_mas ?b [] (- 2) = Inr (- (3 / 2), e)"
    using calculate_mas_outside_precondition [of "- 2" ?b "[]"] by simp
  from 1 2 3 4 show ?thesis by blast
qed

text \<open>
  C3 as the specification words it fails on the code: beyond the held series the
  call returns a number (\<open>sum / period\<close> over the shorter window), and at
  \<open>period = 0\<close> the interpreter's own ZeroDivisionError escapes.
\<close>

theorem calculate_mas_no_validation_counterexample:
  "calculate_mas \<lparr>performance_calculations = [], prices = [1, 2]\<rparr> [1, 2] 5
     = Inr (3 / 5, [1 / 5, 7 / 15, 44 / 45]) \<and>
   calculate_mas \<lparr>performance_calculations = [], prices = [1, 2]\<rparr> [1, 2] 0
     = Inl ZeroDivisionError"
  by (simp add: calculate_mas_def slice_to_def Let_def)

section \<open>Properties of calculate_bollinger_bands\<close>

text \<open>
  When the instance holds the series of 20 equal values that is also passed, the three
  results coincide; on a new instance the average is taken of the empty held series.
\<close>

lemma bollinger_constant_held:
  assumes "prices self = replicate 20 v"
  shows "calculate_bollinger_bands self (replicate 20 v) 20 2 = Inr (v, v, v)"
  by (simp add: calculate_bollinger_bands_def calculate_mas_def slice_to_def slice_from_def
      assms sum_list_replicate Let_def)

lemma bollinger_constant_fresh:
  "calculate_bollinger_bands (init a) (replicate 20 v) 20 2 = Inr (2 * \<bar>v\<bar>, - (2 * \<bar>v\<bar>), 0)"
  by (simp add: calculate_bollinger_bands_def calculate_mas_def slice_to_def slice_from_def
      init_def sum_list_replicate Let_def)

text \<open>
  C6. On a series of 20 equal values \<open>v\<close>, with period 20 and two standard deviations,
  the bands and the simple average should coincide. Evaluated on a new instance with
  \<open>v = 1\<close>: the average is \<open>0\<close> and the bands are \<open>2\<close> and \<open>-2\<close>.
\<close>

theorem bollinger_fresh_instance:
  "calculate_bollinger_bands (init ()) (replicate 20 1) 20 2 = Inr (2, - 2, 0)"
  by (simp add: calculate_bollinger_bands_def calculate_mas_def slice_to_def slice_from_def
      init_def sum_list_replicate Let_def)

section \<open>The two reports\<close>

text \<open>
  C7. On a ledger of two categories and two periods the energy report should return
  the table with the total column and the "Annual Total" row. Evaluated: the lookup of
  line 213 fails with KeyError.
\<close>

theorem energy_consumption_key_error:
  "calculate_energy_consumption [(''A'', [1, 2]), (''B'', [3, 4])] = Inl KeyError"
  by (simp add: calculate_energy_consumption_def DataFrame_def setitem_def getitem_def
      sum_axis1_def)

text \<open>
  The same for every ledger that has no category named
  \<^verbatim>\<open>'Total Energy Consumption (kWh)'\<close>: the call fails.
\<close>

lemma setitem_labels:
  "map fst (columns (setitem df name vals)) =
     (if name \<in> set (map fst (columns df)) then map fst (columns df)
      else map fst (columns df) @ [name])"
proof -
  have "map fst (map (\<lambda>(c, vs). if c = name then (c, vals) else (c, vs)) xs) = map fst xs"
    for xs :: "(string \<times> real list) list"
    by (induction xs) auto
  then show ?thesis by (simp add: setitem_def)
qed

lemma energy_consumption_fails:
  assumes "''Total Energy Consumption (kWh)'' \<notin> set (map fst energy_data)"
  shows "\<exists>e. calculate_energy_consumption energy_data = Inl e"
proof (cases "DataFrame energy_data")
  case (Inl e)
  then show ?thesis by (simp add: calculate_energy_consumption_def)
next
  case (Inr df0)
  then have cols: "columns df0 = energy_data"
    by (auto simp: DataFrame_def split: list.splits if_splits prod.splits)
  have "''Total Energy Consumption (kWh)'' \<notin>
          set (map fst (columns (setitem df0 ''Total Energy Consumption (kWh'' (sum_axis1 df0))))"
    using assms by (simp only: setitem_labels cols) (simp split: if_splits)
  then have "map_of (columns (setitem df0 ''Total Energy Consumption (kWh'' (sum_axis1 df0)))
          ''Total Energy Consumption (kWh)'' = None"
    by (simp add: map_of_eq_None_iff)
  then show ?thesis
    by (simp add: calculate_energy_consumption_def Inr getitem_def Let_def)
qed

text \<open>
  C8. The water report should return the same structure as the energy report on the
  same ledger. Evaluated on a ledger of two categories and two periods: the water report
  fails with NameError and the energy report with KeyError; neither returns a table.
\<close>

theorem water_usage_name_error:
  "calculate_water_usage [(''A'', [1, 2]), (''B'', [3, 4])] = Inl NameError \<and>
   calculate_energy_consumption [(''A'', [1, 2]), (''B'', [3, 4])] = Inl KeyError"
  by (simp add: calculate_water_usage_def calculate_energy_consumption_def DataFrame_def
      global_df_def setitem_def getitem_def sum_axis1_def)

text \<open>The water report returns a table for no input.\<close>

lemma water_usage_never_returns:
  "calculate_water_usage d \<noteq> Inr t"
  by (simp add: calculate_water_usage_def global_df_def split: sum.splits)

section \<open>Frame\<close>

lemma call_frame: "snd (call self c) = self"
  by (cases c) simp_all

text \<open>
  C10. Every operation leaves the instance unchanged: after any call, and after any
  sequence of calls, the held price series and the performance_calculations mapping are
  what they were before.
\<close>

theorem operations_preserve_state:
  "prices (snd (call self c)) = prices self \<and>
   performance_calculations (snd (call self c)) = performance_calculations self \<and>
   run self cs = self"
proof -
  have "run s cs = s" for s
    by (induction cs arbitrary: s) (simp_all add: call_frame)
  then show ?thesis by (simp add: call_frame)
qed

theorem operations_preserve_state_witness:
  "run \<lparr>performance_calculations = [(''k'', 1)], prices = [3, 4]\<rparr>
     [Calculate_mas [1] 1, Calculate_rsi [1, 2] 14, Calculate_water_usage []]
     = \<lparr>performance_calculations = [(''k'', 1)], prices = [3, 4]\<rparr>"
  using operations_preserve_state
    [of "\<lparr>performance_calculations = [(''k'', 1)], prices = [3, 4]\<rparr>" "Calculate_mas [1] 1"
        "[Calculate_mas [1] 1, Calculate_rsi [1, 2] 14, Calculate_water_usage []]"]
  by simp

end
